theory Spec2Isabelle
  imports Main "HOL-Library.AList"
begin

section \<open>Records, transaction chunks and the hosted store\<close>

text \<open>
  The application is a client of a hosted database. Its controllers build transaction
  chunks with \<^verbatim>\<open>db.tx.NAMESPACE[id].ACTION(data)\<close> and submit them with
  \<^verbatim>\<open>db.transact\<close>, one chunk or an array of chunks per call. A chunk may chain
  actions, as in \<^verbatim>\<open>db.tx.notes[noteId].update({...}).link({creator: user.id})\<close>.
  Identifiers and timestamps are strings (\<^verbatim>\<open>id()\<close>, \<^verbatim>\<open>new Date().toISOString()\<close>);
  attribute values are strings or booleans. An object literal is an association list
  in the order in which its keys are written.
\<close>

type_synonym ident = string

datatype jsvalue = Str string | Bool bool

datatype namespace = Notes | Notebooks | Tags

datatype action =
    Update "(string \<times> jsvalue) list"
  | Link "(string \<times> ident list) list"
  | Unlink "(string \<times> ident list) list"
  | Delete

datatype chunk = Chunk namespace ident "action list"

datatype error = Error string

record user =
  user_id :: ident
  user_email :: string

text \<open>
  An entity as a query or an echo returns it: its identifier and its attributes
  (\<^verbatim>\<open>InstaQLEntity\<close> in \<^verbatim>\<open>types/index.ts\<close>). \<^verbatim>\<open>NoteWithRelations\<close> adds the joined
  tags and the joined notebook, which is absent when the note has none.
\<close>

record entity =
  id' :: ident
  attrs :: "(string \<times> jsvalue) list"

record note_with_relations = entity +
  tags :: "entity list"
  notebook :: "entity option"

definition attr :: "'a entity_scheme \<Rightarrow> string \<Rightarrow> jsvalue option" where
  "attr e k = map_of (attrs e) k"

subsection \<open>The schema's links\<close>

text \<open>
  \<^verbatim>\<open>instant.schema.ts\<close> declares the links between notes, notebooks, tags and users.
  Every link has a forward side, with the label used from there, and a reverse side
  with its own label; \<^verbatim>\<open>has: 'one'\<close> bounds the side it is written on. An edge is
  stored once, as the link with the identifier of the forward entity and then that of
  the reverse entity, whichever side named it. The link between profiles and users is
  left out: no controller names it.
\<close>

datatype link = noteCreator | notebookCreator | notebookNotes | noteTags | tagCreator

type_synonym edge = "link \<times> ident \<times> ident"

definition resolve :: "namespace \<Rightarrow> string \<Rightarrow> (link \<times> bool) option" where
  "resolve ns label =
     (case ns of
        Notes \<Rightarrow>
          (if label = ''creator'' then Some (noteCreator, True)
           else if label = ''notebook'' then Some (notebookNotes, False)
           else if label = ''tags'' then Some (noteTags, True)
           else None)
      | Notebooks \<Rightarrow>
          (if label = ''creator'' then Some (notebookCreator, True)
           else if label = ''notes'' then Some (notebookNotes, True)
           else None)
      | Tags \<Rightarrow>
          (if label = ''creator'' then Some (tagCreator, True)
           else if label = ''notes'' then Some (noteTags, False)
           else None))"

fun one_forward :: "link \<Rightarrow> bool" where
  "one_forward noteCreator = True"
| "one_forward notebookCreator = True"
| "one_forward notebookNotes = False"
| "one_forward noteTags = False"
| "one_forward tagCreator = True"

fun one_reverse :: "link \<Rightarrow> bool" where
  "one_reverse notebookNotes = True"
| "one_reverse l = False"

definition edges_of :: "namespace \<Rightarrow> ident \<Rightarrow> string \<times> ident list \<Rightarrow> edge list" where
  "edges_of ns i lt =
     (case resolve ns (fst lt) of
        None \<Rightarrow> []
      | Some (l, forward) \<Rightarrow>
          map (\<lambda>t. if forward then (l, i, t) else (l, t, i)) (snd lt))"

subsection \<open>The store and the effect of a transaction\<close>

text \<open>
  The hosted service is not part of the repository; the store below follows the
  description of its transactions in \<^verbatim>\<open>rules.md\<close>. The chunks of one transaction
  "execute atomically", in the order of the array. \<^verbatim>\<open>update\<close> creates the entity when
  it is new and sets the given attributes, "leaving other fields untouched";
  \<^verbatim>\<open>link\<close> and \<^verbatim>\<open>unlink\<close> add and remove edges, from either side of a link;
  \<^verbatim>\<open>delete\<close> removes the entity. Adding an edge replaces the edges that a
  \<^verbatim>\<open>has: 'one'\<close> side would otherwise hold twice. Deleting an entity leaves the edges
  to the \<^verbatim>\<open>unlink\<close> steps of the caller, so that no result below rests on the
  service clearing edges by itself. A label the schema does not declare names no
  edge. The permission rules of \<^verbatim>\<open>instant.perms.ts\<close> are evaluated by the service;
  here a rejected call is an answer of the environment (see \<open>transact\<close>).
\<close>

record store =
  rows :: "((namespace \<times> ident) \<times> (string \<times> jsvalue) list) list"
  edges :: "edge list"

definition put_edge :: "edge \<Rightarrow> edge list \<Rightarrow> edge list" where
  "put_edge e es =
     (case e of (l, a, b) \<Rightarrow>
        e # filter (\<lambda>(l', a', b').
                \<not> (l' = l \<and> ((a' = a \<and> b' = b) \<or> (one_forward l \<and> a' = a)
                                \<or> (one_reverse l \<and> b' = b)))) es)"

definition set_fields ::
  "(string \<times> jsvalue) list \<Rightarrow> (string \<times> jsvalue) list \<Rightarrow> (string \<times> jsvalue) list" where
  "set_fields kvs old = fold (\<lambda>kv. AList.update (fst kv) (snd kv)) kvs old"

fun apply_action :: "namespace \<Rightarrow> ident \<Rightarrow> action \<Rightarrow> store \<Rightarrow> store" where
  "apply_action ns i (Update kvs) s =
     s\<lparr>rows := AList.update (ns, i)
                 (set_fields kvs (case map_of (rows s) (ns, i) of None \<Rightarrow> [] | Some old \<Rightarrow> old))
                 (rows s)\<rparr>"
| "apply_action ns i (Link ls) s =
     s\<lparr>edges := fold put_edge (concat (map (edges_of ns i) ls)) (edges s)\<rparr>"
| "apply_action ns i (Unlink ls) s =
     s\<lparr>edges := filter (\<lambda>e. e \<notin> set (concat (map (edges_of ns i) ls))) (edges s)\<rparr>"
| "apply_action ns i Delete s =
     s\<lparr>rows := AList.delete (ns, i) (rows s)\<rparr>"

fun apply_chunk :: "chunk \<Rightarrow> store \<Rightarrow> store" where
  "apply_chunk (Chunk ns i acts) s = fold (apply_action ns i) acts s"

definition apply_tx :: "chunk list \<Rightarrow> store \<Rightarrow> store" where
  "apply_tx tx s = fold apply_chunk tx s"

subsection \<open>Remote calls\<close>

text \<open>
  The world a controller acts on: the store, the log of the \<^verbatim>\<open>db.transact\<close> calls
  issued so far (each call with the chunks it carried) and the console. Whether the
  service resolves or rejects a call is not decided by this repository: \<open>fault\<close> is
  the answer of the environment, \<open>None\<close> when the call resolves and the error it
  rejects with otherwise. A call is logged when it is issued; the store changes only
  when the call resolves, and then by the whole transaction.
\<close>

datatype console_line =
    ConsoleLog string
  | ConsoleError string
  | ConsoleErrorWith string error

record world =
  db :: store
  calls :: "chunk list list"
  console :: "console_line list"

type_synonym fault = "world \<Rightarrow> chunk list \<Rightarrow> error option"

definition transact :: "fault \<Rightarrow> chunk list \<Rightarrow> world \<Rightarrow> (error + unit) \<times> world" where
  "transact fault tx w =
     (case fault w tx of
        Some e \<Rightarrow> (Inl e, w\<lparr>calls := calls w @ [tx]\<rparr>)
      | None \<Rightarrow> (Inr (), w\<lparr>db := apply_tx tx (db w), calls := calls w @ [tx]\<rparr>))"

section \<open>The note controller (\<^verbatim>\<open>contexts/NoteContext.tsx\<close>)\<close>

text \<open>
  \<^verbatim>\<open>if (notebookId)\<close> holds for a string that is present and not empty.
\<close>

definition truthy :: "string option \<Rightarrow> bool" where
  "truthy x = (case x of None \<Rightarrow> False | Some s \<Rightarrow> s \<noteq> [])"

text \<open>
  \<^verbatim>\<open>createNote\<close>: \<open>noteId\<close> is the value of \<^verbatim>\<open>id()\<close> and \<open>now\<close> the value of
  \<^verbatim>\<open>new Date().toISOString()\<close> in this call.
\<close>

definition createNote_tx ::
  "user \<Rightarrow> ident \<Rightarrow> string \<Rightarrow> string \<Rightarrow> string \<Rightarrow> string option \<Rightarrow> ident list option
     \<Rightarrow> chunk list" where
  "createNote_tx u noteId now title content notebookId tagIds =
     [Chunk Notes noteId
        [Update [(''title'', Str title), (''content'', Str content),
                 (''createdAt'', Str now), (''updatedAt'', Str now),
                 (''isFavorite'', Bool False)],
         Link [(''creator'', [user_id u])]]]
     @ (case notebookId of
          None \<Rightarrow> []
        | Some nb \<Rightarrow> if truthy (Some nb) then [Chunk Notebooks nb [Link [(''notes'', [noteId])]]] else [])
     @ (case tagIds of
          None \<Rightarrow> []
        | Some ts \<Rightarrow> if length ts > 0 then [Chunk Notes noteId [Link [(''tags'', ts)]]] else [])"

definition createNote ::
  "fault \<Rightarrow> user option \<Rightarrow> ident \<Rightarrow> string \<Rightarrow> string \<Rightarrow> string \<Rightarrow> string option
     \<Rightarrow> ident list option \<Rightarrow> world \<Rightarrow> (error + entity) \<times> world" where
  "createNote fault usr noteId now title content notebookId tagIds w =
     (case usr of
        None \<Rightarrow> (Inl (Error ''User not authenticated''), w)
      | Some u \<Rightarrow>
          (case transact fault (createNote_tx u noteId now title content notebookId tagIds) w of
             (Inl e, w') \<Rightarrow> (Inl e, w')
           | (Inr _, w') \<Rightarrow>
               (Inr \<lparr>id' = noteId,
                     attrs = [(''title'', Str title), (''content'', Str content),
                               (''createdAt'', Str now), (''updatedAt'', Str now),
                               (''isFavorite'', Bool False)]\<rparr>, w')))"

text \<open>
  The live query of \<^verbatim>\<open>NoteProvider\<close>: the notes whose creator is the signed-in user,
  each with its tags and its notebook joined. Without a user the query is \<^verbatim>\<open>null\<close>
  and \<^verbatim>\<open>notes\<close> is the empty array. The \<^verbatim>\<open>order\<close> clauses arrange the rows only;
  every operation below selects rows by identifier, so the rows keep the store's order.
\<close>

definition entities_of :: "store \<Rightarrow> namespace \<Rightarrow> entity list" where
  "entities_of s ns =
     map (\<lambda>r. \<lparr>id' = snd (fst r), attrs = snd r\<rparr>) (filter (\<lambda>r. fst (fst r) = ns) (rows s))"

definition linked :: "store \<Rightarrow> link \<Rightarrow> ident \<Rightarrow> ident \<Rightarrow> bool" where
  "linked s l a b = ((l, a, b) \<in> set (edges s))"

definition useQuery_notes :: "store \<Rightarrow> ident \<Rightarrow> note_with_relations list" where
  "useQuery_notes s uid =
     map (\<lambda>e. \<lparr>id' = id' e, attrs = attrs e,
               tags = filter (\<lambda>t. linked s noteTags (id' e) (id' t)) (entities_of s Tags),
               notebook = List.find (\<lambda>b. linked s notebookNotes (id' b) (id' e))
                            (entities_of s Notebooks)\<rparr>)
         (filter (\<lambda>e. linked s noteCreator (id' e) uid) (entities_of s Notes))"

definition provider_notes :: "store \<Rightarrow> user option \<Rightarrow> note_with_relations list" where
  "provider_notes s usr = (case usr of None \<Rightarrow> [] | Some u \<Rightarrow> useQuery_notes s (user_id u))"

text \<open>
  \<^verbatim>\<open>updateNote\<close>: \<^verbatim>\<open>{...updates, updatedAt: now}\<close> keeps the keys of \<open>updates\<close> and
  sets \<^verbatim>\<open>updatedAt\<close>, overwriting it in place if \<open>updates\<close> carried one.
\<close>

definition updateNote ::
  "fault \<Rightarrow> string \<Rightarrow> ident \<Rightarrow> (string \<times> jsvalue) list \<Rightarrow> world \<Rightarrow> (error + unit) \<times> world" where
  "updateNote fault now i updates w =
     transact fault [Chunk Notes i [Update (AList.update ''updatedAt'' (Str now) updates)]] w"

text \<open>
  \<^verbatim>\<open>deleteNotebook\<close> and \<^verbatim>\<open>deleteTag\<close> build one array: an \<^verbatim>\<open>unlink\<close> chunk for
  every note of the live query that is in the notebook (carries the tag), then the
  \<^verbatim>\<open>delete\<close> chunk pushed at the end; the array goes out in one \<^verbatim>\<open>db.transact\<close>.
\<close>

definition in_notebook :: "ident \<Rightarrow> note_with_relations \<Rightarrow> bool" where
  "in_notebook i note = (case notebook note of None \<Rightarrow> False | Some b \<Rightarrow> id' b = i)"

definition deleteNotebook_tx :: "note_with_relations list \<Rightarrow> ident \<Rightarrow> chunk list" where
  "deleteNotebook_tx notes i =
     map (\<lambda>note. Chunk Notebooks i [Unlink [(''notes'', [id' note])]])
         (filter (in_notebook i) notes)
     @ [Chunk Notebooks i [Delete]]"

definition deleteNotebook ::
  "fault \<Rightarrow> note_with_relations list \<Rightarrow> ident \<Rightarrow> world \<Rightarrow> (error + unit) \<times> world" where
  "deleteNotebook fault notes i w = transact fault (deleteNotebook_tx notes i) w"

definition has_tag :: "ident \<Rightarrow> note_with_relations \<Rightarrow> bool" where
  "has_tag i note = list_ex (\<lambda>tag. id' tag = i) (tags note)"

definition deleteTag_tx :: "note_with_relations list \<Rightarrow> ident \<Rightarrow> chunk list" where
  "deleteTag_tx notes i =
     map (\<lambda>note. Chunk Notes (id' note) [Unlink [(''tags'', [i])]])
         (filter (has_tag i) notes)
     @ [Chunk Tags i [Delete]]"

definition deleteTag ::
  "fault \<Rightarrow> note_with_relations list \<Rightarrow> ident \<Rightarrow> world \<Rightarrow> (error + unit) \<times> world" where
  "deleteTag fault notes i w = transact fault (deleteTag_tx notes i) w"

definition addTagToNote :: "fault \<Rightarrow> ident \<Rightarrow> ident \<Rightarrow> world \<Rightarrow> (error + unit) \<times> world" where
  "addTagToNote fault noteId tagId w =
     transact fault [Chunk Notes noteId [Link [(''tags'', [tagId])]]] w"


text \<open>
  \<^verbatim>\<open>moveNoteToNotebook\<close> looks the note up in the live query. Each \<^verbatim>\<open>await\<close> is a
  call of its own; when the first rejects, the error leaves the function and the
  second call is not issued.
\<close>

definition moveNoteToNotebook ::
  "fault \<Rightarrow> note_with_relations list \<Rightarrow> ident \<Rightarrow> ident \<Rightarrow> world \<Rightarrow> (error + unit) \<times> world" where
  "moveNoteToNotebook fault notes noteId notebookId w =
     (case (case List.find (\<lambda>n. id' n = noteId) notes of
              None \<Rightarrow> None
            | Some note \<Rightarrow> notebook note) of
        Some old \<Rightarrow>
          (case transact fault [Chunk Notebooks (id' old) [Unlink [(''notes'', [noteId])]]] w of
             (Inl e, w') \<Rightarrow> (Inl e, w')
           | (Inr _, w') \<Rightarrow>
               transact fault [Chunk Notebooks notebookId [Link [(''notes'', [noteId])]]] w')
      | None \<Rightarrow>
          transact fault [Chunk Notebooks notebookId [Link [(''notes'', [noteId])]]] w)"

section \<open>The onboarding seeder (\<^verbatim>\<open>lib/onboarding.ts\<close>)\<close>

text \<open>
  The five welcome notes are fixed text, each a title and a content. A template
  literal that runs over several lines is the list of its lines joined by line feeds.
  Characters of the source outside ASCII (the pictographs that open the titles) stand
  as the bytes of their UTF-8 encoding.
\<close>

fun join_lines :: "string list \<Rightarrow> string" where
  "join_lines [] = []"
| "join_lines [l] = l"
| "join_lines (l # ls) = l @ CHR 0x0A # join_lines ls"

definition welcomeNotes :: "(string \<times> string) list" where
  \<open>welcomeNotes =
    [([CHR 0xF0, CHR 0x9F, CHR 0x91, CHR 0x8B] @ '' Welcome to Evernote Clone!'',
      join_lines
       [''Welcome to your new Evernote Clone!'',
        [],
        ''This application provides a simple and effective way to capture and organize your thoughts, ideas, and information.'',
        [],
        ''Here are a few things you can do:'',
        ''- Create and edit notes'',
        ''- Organize notes into notebooks'',
        ''- Tag notes for easy searching'',
        ''- Favorite important notes'',
        [],
        ''Feel free to delete these notes or keep them for reference. Let's get started!'']),
     ([CHR 0xF0, CHR 0x9F, CHR 0x93, CHR 0x9D] @ '' Creating and Editing Notes'',
      join_lines
       [''# Creating Notes'',
        [],
        ''To create a new note, click the "New Note" button in the note list panel.'',
        [],
        ''# Editing Notes'',
        [],
        ''Notes are automatically saved as you type. You can edit:'',
        ''- The title of the note'',
        ''- The content of the note'',
        [],
        ''# Formatting (Future Enhancement)'',
        ''We're working on adding rich text formatting in a future update. For now, your notes are saved as plain text.'',
        [],
        ''# Deleting Notes'',
        ''To delete a note, click the trash icon in the top-right corner of the note editor. Be careful, as this action cannot be undone.'']),
     ([CHR 0xF0, CHR 0x9F, CHR 0x93, CHR 0x9A] @ '' Using Notebooks'',
      join_lines
       [''Notebooks help you organize your notes by topic, project, or category.'',
        [],
        ''# Creating Notebooks'',
        ''1. Click the + icon next to "Notebooks" in the sidebar'',
        ''2. Enter a name for your notebook'',
        ''3. Click "Add"'',
        [],
        ''# Moving Notes to Notebooks'',
        ''1. Open the note you want to move'',
        ''2. Click on the notebook name in the toolbar (or "No Notebook" if it's not in a notebook yet)'',
        ''3. Select the destination notebook from the dropdown'',
        [],
        ''# Organizing Tips'',
        ''- Use notebooks for broad categories (Work, Personal, Projects)'',
        ''- Use tags for more specific labeling within notebooks'']),
     ([CHR 0xF0, CHR 0x9F, CHR 0x8F, CHR 0xB7, CHR 0xEF, CHR 0xB8, CHR 0x8F] @ '' Using Tags'',
      join_lines
       [''Tags provide a flexible way to categorize your notes across notebooks.'',
        [],
        ''# Adding Tags'',
        ''1. Open the note you want to tag'',
        ''2. Click "Add Tags" in the toolbar'',
        ''3. Select existing tags or create new ones'',
        [],
        ''# Creating New Tags'',
        ''1. Click the + icon next to "Tags" in the sidebar'',
        ''2. Enter a name for your tag'',
        ''3. Click "Add"'',
        [],
        ''# Finding Tagged Notes'',
        ''Click on any tag in the sidebar to see all notes with that tag.'',
        [],
        ''# Tag Tips'',
        ''- Use tags for cross-notebook organization'',
        ''- Add multiple tags to notes for more flexible organization'',
        ''- Tags are especially useful for project-specific content that spans multiple notebooks'']),
     ([CHR 0xE2, CHR 0xAD, CHR 0x90] @ '' Tips and Tricks'',
      join_lines
       [''# Favorites'',
        ''Mark important notes as favorites by clicking the star icon in the toolbar.'',
        [],
        ''# Search'',
        ''Use the search bar to quickly find notes by title or content.'',
        [],
        ''# Automatic Saving'',
        ''Your notes are automatically saved as you type, so you never have to worry about losing your work.'',
        [],
        ''# Keyboard Shortcuts (Coming Soon)'',
        ''We're working on adding keyboard shortcuts to make navigation and note creation even faster.'',
        [],
        ''# Feedback'',
        ''We're constantly improving the app. If you have suggestions or find bugs, please let us know!'',
        [],
        ''Thanks for using Evernote Clone!''])]\<close>

text \<open>
  \<^verbatim>\<open>seedUserWithOnboardingNotes(user)\<close>. \<open>gen\<close> gives the identifiers that the
  successive calls of \<^verbatim>\<open>id()\<close> return: the first for the notebook, the next ones for
  the notes, in the order of the array. The guard on the user stands before the
  \<^verbatim>\<open>try\<close>; whatever the body of the \<^verbatim>\<open>try\<close> throws is caught and logged.
\<close>

definition notebook_chunk :: "ident \<Rightarrow> string \<Rightarrow> user \<Rightarrow> chunk" where
  "notebook_chunk notebookId now u =
     Chunk Notebooks notebookId
       [Update [(''name'', Str ''Getting Started''),
                (''description'', Str ''Introduction to the Evernote Clone''),
                (''createdAt'', Str now)],
        Link [(''creator'', [user_id u])]]"

definition note_chunk ::
  "(nat \<Rightarrow> ident) \<Rightarrow> ident \<Rightarrow> string \<Rightarrow> user \<Rightarrow> nat \<times> string \<times> string \<Rightarrow> chunk" where
  "note_chunk gen notebookId now u entry =
     (case entry of (index, note) \<Rightarrow>
        Chunk Notes (gen (Suc index))
          [Update [(''title'', Str (fst note)), (''content'', Str (snd note)),
                   (''createdAt'', Str now), (''updatedAt'', Str now),
                   (''isFavorite'', Bool (index = 0))],
           Link [(''creator'', [user_id u]), (''notebook'', [notebookId])]])"

definition seed_body ::
  "fault \<Rightarrow> (nat \<Rightarrow> ident) \<Rightarrow> string \<Rightarrow> user \<Rightarrow> world \<Rightarrow> (error + unit) \<times> world" where
  "seed_body fault gen now u w =
     (let notebookId = gen 0 in
      case transact fault [notebook_chunk notebookId now u] w of
        (Inl e, w1) \<Rightarrow> (Inl e, w1)
      | (Inr _, w1) \<Rightarrow>
          (case transact fault
                  (map (note_chunk gen notebookId now u) (enumerate 0 welcomeNotes)) w1 of
             (Inl e, w2) \<Rightarrow> (Inl e, w2)
           | (Inr _, w2) \<Rightarrow>
               (Inr (), w2\<lparr>console := console w2 @
                    [ConsoleLog ''Successfully created onboarding notes for new user'']\<rparr>)))"

definition seedUserWithOnboardingNotes ::
  "fault \<Rightarrow> (nat \<Rightarrow> ident) \<Rightarrow> string \<Rightarrow> user option \<Rightarrow> world \<Rightarrow> (error + unit) \<times> world" where
  "seedUserWithOnboardingNotes fault gen now usr w =
     (case (case usr of None \<Rightarrow> None | Some u \<Rightarrow> if user_id u = [] then None else Some u) of
        None \<Rightarrow>
          (Inr (), w\<lparr>console := console w @
             [ConsoleError ''Cannot seed notes: User is undefined or missing ID'']\<rparr>)
      | Some u \<Rightarrow>
          (case seed_body fault gen now u w of
             (Inl e, w') \<Rightarrow>
               (Inr (), w'\<lparr>console := console w' @
                  [ConsoleErrorWith ''Failed to create onboarding notes:'' e]\<rparr>)
           | (Inr _, w') \<Rightarrow> (Inr (), w')))"

section \<open>The auth controller (\<^verbatim>\<open>contexts/AuthContext.tsx\<close>)\<close>

text \<open>
  The repository holds the file in two states; the later one adds the effect that
  seeds a new user and is the one followed here. \<^verbatim>\<open>signIn\<close>, \<^verbatim>\<open>verifyCode\<close> and the
  redirect to the login screen are the same in both.

  The state of \<^verbatim>\<open>AuthProvider\<close>: what \<^verbatim>\<open>db.useAuth()\<close> reports (\<open>isLoading\<close> and the
  ambient identity \<open>user\<close>), the email a code was sent to, the identifier remembered in
  \<^verbatim>\<open>previousUserRef\<close>, and the router with its current path and the paths pushed.
\<close>

record auth_state =
  isLoading :: bool
  user :: "user option"
  sentEmail :: "string option"
  previousUserRef :: "ident option"
  pathname :: string
  pushed :: "string list"

definition router_push :: "string \<Rightarrow> auth_state \<Rightarrow> auth_state" where
  "router_push p a = a\<lparr>pathname := p, pushed := pushed a @ [p]\<rparr>"

text \<open>
  Modelled from the spec: the two calls of the client library that the controller
  awaits. The service answers a request for a code with an error or not at all, and an
  exchange of a code with an error or the signed-in user; after a successful exchange
  \<^verbatim>\<open>db.useAuth()\<close> reports that user ("the ambient identity becomes non-null").
\<close>

definition sendMagicCode :: "(string \<Rightarrow> error option) \<Rightarrow> string \<Rightarrow> error + unit" where
  "sendMagicCode service email = (case service email of Some e \<Rightarrow> Inl e | None \<Rightarrow> Inr ())"

definition signInWithMagicCode ::
  "(string \<Rightarrow> string \<Rightarrow> error + user) \<Rightarrow> string \<Rightarrow> string \<Rightarrow> auth_state
     \<Rightarrow> (error + unit) \<times> auth_state" where
  "signInWithMagicCode service email code a =
     (case service email code of
        Inl e \<Rightarrow> (Inl e, a)
      | Inr u \<Rightarrow> (Inr (), a\<lparr>user := Some u\<rparr>))"

definition signIn ::
  "(string \<Rightarrow> error option) \<Rightarrow> string \<Rightarrow> auth_state \<times> world
     \<Rightarrow> (error + unit) \<times> auth_state \<times> world" where
  "signIn service email aw =
     (case aw of (a, w) \<Rightarrow>
        (case sendMagicCode service email of
           Inr _ \<Rightarrow> (Inr (), a\<lparr>sentEmail := Some email\<rparr>, w)
         | Inl e \<Rightarrow>
             (Inl e, a, w\<lparr>console := console w @
                [ConsoleErrorWith ''Failed to send magic code:'' e]\<rparr>)))"

definition verifyCode ::
  "(string \<Rightarrow> string \<Rightarrow> error + user) \<Rightarrow> string \<Rightarrow> string \<Rightarrow> auth_state \<times> world
     \<Rightarrow> (error + unit) \<times> auth_state \<times> world" where
  "verifyCode service email code aw =
     (case aw of (a, w) \<Rightarrow>
        (case signInWithMagicCode service email code a of
           (Inr _, a') \<Rightarrow> (Inr (), a'\<lparr>sentEmail := None\<rparr>, w)
         | (Inl e, a') \<Rightarrow>
             (Inl e, a', w\<lparr>console := console w @
                [ConsoleErrorWith ''Failed to verify code:'' e]\<rparr>)))"

text \<open>
  The effect that checks a newly seen user: \<^verbatim>\<open>queryOnce\<close> asks for at most one note
  of the user and may reject (\<open>qfault\<close>); the seeder runs when the answer is empty; the
  identifier is remembered unless something was thrown.
\<close>

definition queryOnce_notes ::
  "(world \<Rightarrow> error option) \<Rightarrow> ident \<Rightarrow> world \<Rightarrow> error + entity list" where
  "queryOnce_notes qfault uid w =
     (case qfault w of
        Some e \<Rightarrow> Inl e
      | None \<Rightarrow>
          Inr (take 1 (filter (\<lambda>e. linked (db w) noteCreator (id' e) uid)
                         (entities_of (db w) Notes))))"

definition checkUserAndCreateNotes ::
  "(world \<Rightarrow> error option) \<Rightarrow> fault \<Rightarrow> (nat \<Rightarrow> ident) \<Rightarrow> string \<Rightarrow> auth_state \<times> world
     \<Rightarrow> auth_state \<times> world" where
  "checkUserAndCreateNotes qfault fault gen now aw =
     (case aw of (a, w) \<Rightarrow>
        (case user a of
           None \<Rightarrow> (a, w)
         | Some u \<Rightarrow>
             if user_id u \<noteq> [] \<and> previousUserRef a \<noteq> Some (user_id u) then
               (case queryOnce_notes qfault (user_id u) w of
                  Inl e \<Rightarrow>
                    (a, w\<lparr>console := console w @
                       [ConsoleErrorWith ''Error checking user notes:'' e]\<rparr>)
                | Inr notes \<Rightarrow>
                    if length notes = 0 then
                      (case seedUserWithOnboardingNotes fault gen now (Some u)
                              (w\<lparr>console := console w @
                                 [ConsoleLog ''Creating onboarding notes for new user'']\<rparr>) of
                         (Inl e, w') \<Rightarrow>
                           (a, w'\<lparr>console := console w' @
                              [ConsoleErrorWith ''Error checking user notes:'' e]\<rparr>)
                       | (Inr _, w') \<Rightarrow> (a\<lparr>previousUserRef := Some (user_id u)\<rparr>, w'))
                    else (a\<lparr>previousUserRef := Some (user_id u)\<rparr>, w))
             else (a, w)))"

definition onboarding_effect ::
  "(world \<Rightarrow> error option) \<Rightarrow> fault \<Rightarrow> (nat \<Rightarrow> ident) \<Rightarrow> string \<Rightarrow> auth_state \<times> world
     \<Rightarrow> auth_state \<times> world" where
  "onboarding_effect qfault fault gen now aw =
     (if \<not> isLoading (fst aw) \<and> user (fst aw) \<noteq> None
      then checkUserAndCreateNotes qfault fault gen now aw else aw)"

text \<open>
  The effect that sends a signed-out session to the login screen. \<^verbatim>\<open>!sentEmail\<close> holds
  when no email is recorded, and for the empty string.
\<close>

definition redirect_effect :: "auth_state \<Rightarrow> auth_state" where
  "redirect_effect a =
     (if \<not> isLoading a \<and> user a = None \<and> \<not> truthy (sentEmail a) \<and> pathname a \<noteq> ''/login''
      then router_push ''/login'' a else a)"

section \<open>A sample session\<close>

text \<open>
  Concrete values on which the results below are run: a service that resolves every
  call, a user, and a store in which the user owns the notebook \<open>nb-work\<close>, the tag
  \<open>t-todo\<close> and two notes, the first of them in the notebook and carrying the tag.
\<close>

definition no_fault :: fault where
  "no_fault w tx = None"

definition alice :: user where
  "alice = \<lparr>user_id = ''u-alice'', user_email = ''alice@example.com''\<rparr>"

definition empty_world :: world where
  "empty_world = \<lparr>db = \<lparr>rows = [], edges = []\<rparr>, calls = [], console = []\<rparr>"

definition sample_store :: store where
  "sample_store =
     \<lparr>rows =
        [((Notebooks, ''nb-work''), [(''name'', Str ''Work''), (''description'', Str []),
                                     (''createdAt'', Str ''2025-01-01T09:00:00.000Z'')]),
         ((Tags, ''t-todo''), [(''name'', Str ''todo''),
                               (''createdAt'', Str ''2025-01-01T09:01:00.000Z'')]),
         ((Notes, ''n-b''), [(''title'', Str ''B''), (''content'', Str ''in Work''),
                             (''createdAt'', Str ''2025-01-01T09:02:00.000Z''),
                             (''updatedAt'', Str ''2025-01-01T09:02:00.000Z''),
                             (''isFavorite'', Bool True)]),
         ((Notes, ''n-a''), [(''title'', Str ''A''), (''content'', Str ''loose''),
                             (''createdAt'', Str ''2025-01-01T09:03:00.000Z''),
                             (''updatedAt'', Str ''2025-01-01T09:03:00.000Z''),
                             (''isFavorite'', Bool False)])],
      edges =
        [(notebookCreator, ''nb-work'', ''u-alice''), (tagCreator, ''t-todo'', ''u-alice''),
         (noteCreator, ''n-b'', ''u-alice''), (noteCreator, ''n-a'', ''u-alice''),
         (notebookNotes, ''nb-work'', ''n-b''), (noteTags, ''n-b'', ''t-todo'')]\<rparr>"

definition sample_world :: world where
  "sample_world = \<lparr>db = sample_store, calls = [], console = []\<rparr>"

text \<open>
  For the auth controller: identifiers as \<^verbatim>\<open>id()\<close> might return them, one after the
  other; a session that is signed in, one that waits for its code and one that is
  signed out; a service that is offline, a query that resolves, and a service that
  accepts one code for the user's address.
\<close>

definition sample_gen :: "nat \<Rightarrow> ident" where
  "sample_gen n = ''id-'' @ replicate n (CHR ''i'')"

definition signed_in :: auth_state where
  "signed_in = \<lparr>isLoading = False, user = Some alice, sentEmail = None,
                 previousUserRef = None, pathname = ''/'', pushed = []\<rparr>"

definition code_sent :: auth_state where
  "code_sent = \<lparr>isLoading = False, user = None, sentEmail = Some ''alice@example.com'',
                 previousUserRef = None, pathname = ''/login'', pushed = []\<rparr>"

definition signed_out :: auth_state where
  "signed_out = \<lparr>isLoading = False, user = None, sentEmail = None,
                  previousUserRef = None, pathname = ''/'', pushed = []\<rparr>"

definition reject_all :: fault where
  "reject_all w tx = Some (Error ''offline'')"

definition no_qfault :: "world \<Rightarrow> error option" where
  "no_qfault w = None"

definition sample_codes :: "string \<Rightarrow> string \<Rightarrow> error + user" where
  "sample_codes email code =
     (if email = ''alice@example.com'' \<and> code = ''123456'' then Inr alice
      else Inl (Error ''invalid code''))"

section \<open>Created notes\<close>

text \<open>
  C3. Every successful \<^verbatim>\<open>createNote(title, content, notebookId?, tagIds?)\<close> returns an
  echo whose title and content are the inputs, whose \<^verbatim>\<open>isFavorite\<close> is false and
  whose creation timestamp equals its update timestamp (both are present).
\<close>

theorem createNote_echo:
  assumes "createNote fault usr noteId now title content notebookId tagIds w = (Inr r, w')"
  shows "attr r ''title'' = Some (Str title)
       \<and> attr r ''content'' = Some (Str content)
       \<and> attr r ''isFavorite'' = Some (Bool False)
       \<and> attr r ''createdAt'' = attr r ''updatedAt''
       \<and> attr r ''createdAt'' \<noteq> None"
  using assms
  by (auto simp: createNote_def attr_def split: option.splits prod.splits sum.splits)

theorem createNote_echo_witness:
  "fst (createNote no_fault (Some alice) ''n-1'' ''2025-01-02T10:00:00.000Z''
          ''A'' ''first note'' None None empty_world)
     = Inr \<lparr>id' = ''n-1'',
            attrs = [(''title'', Str ''A''), (''content'', Str ''first note''),
                     (''createdAt'', Str ''2025-01-02T10:00:00.000Z''),
                     (''updatedAt'', Str ''2025-01-02T10:00:00.000Z''),
                     (''isFavorite'', Bool False)]\<rparr>
   \<and> attr \<lparr>id' = ''n-1'',
            attrs = [(''title'', Str ''A''), (''content'', Str ''first note''),
                     (''createdAt'', Str ''2025-01-02T10:00:00.000Z''),
                     (''updatedAt'', Str ''2025-01-02T10:00:00.000Z''),
                     (''isFavorite'', Bool False)]\<rparr> ''title'' = Some (Str ''A'')"
proof -
  let ?call = "createNote no_fault (Some alice) ''n-1'' ''2025-01-02T10:00:00.000Z''
                 ''A'' ''first note'' None None empty_world"
  let ?r = "\<lparr>id' = ''n-1'',
            attrs = [(''title'', Str ''A''), (''content'', Str ''first note''),
                     (''createdAt'', Str ''2025-01-02T10:00:00.000Z''),
                     (''updatedAt'', Str ''2025-01-02T10:00:00.000Z''),
                     (''isFavorite'', Bool False)]\<rparr>"
  have echo: "fst ?call = Inr ?r"
    by (simp add: createNote_def transact_def no_fault_def)
  then have run: "?call = (Inr ?r, snd ?call)"
    by (simp add: prod_eq_iff)
  from createNote_echo [OF run] have "attr ?r ''title'' = Some (Str ''A'')"
    by (rule conjunct1)
  with echo show ?thesis
    by (rule conjI)
qed

section \<open>Transactions of unlink chunks and a delete\<close>

text \<open>
  The transactions of \<^verbatim>\<open>deleteNotebook\<close> and \<^verbatim>\<open>deleteTag\<close> have the same shape.
  Their effect on the store is computed once: the unlink chunks filter the edges, the
  delete chunk removes the row.
\<close>

lemma edges_of_notebook_notes:
  "edges_of Notebooks i (''notes'', ts) = map (\<lambda>t. (notebookNotes, i, t)) ts"
  by (simp add: edges_of_def resolve_def)

lemma edges_of_note_tags:
  "edges_of Notes i (''tags'', ts) = map (\<lambda>t. (noteTags, i, t)) ts"
  by (simp add: edges_of_def resolve_def)

lemma fold_unlink_notes:
  "fold apply_chunk (map (\<lambda>n. Chunk Notebooks i [Unlink [(''notes'', [f n])]]) xs) s =
     s\<lparr>edges := filter (\<lambda>e. e \<notin> (\<lambda>n. (notebookNotes, i, f n)) ` set xs) (edges s)\<rparr>"
proof (induction xs arbitrary: s)
  case Nil
  show ?case by simp
next
  case (Cons x xs)
  show ?case
    by (simp add: Cons.IH edges_of_notebook_notes conj_commute)
qed

lemma fold_unlink_tags:
  "fold apply_chunk (map (\<lambda>n. Chunk Notes (f n) [Unlink [(''tags'', [i])]]) xs) s =
     s\<lparr>edges := filter (\<lambda>e. e \<notin> (\<lambda>n. (noteTags, f n, i)) ` set xs) (edges s)\<rparr>"
proof (induction xs arbitrary: s)
  case Nil
  show ?case by simp
next
  case (Cons x xs)
  show ?case
    by (simp add: Cons.IH edges_of_note_tags conj_commute)
qed


lemma apply_tx_deleteNotebook:
  "apply_tx (deleteNotebook_tx notes i) s =
     s\<lparr>rows := AList.delete (Notebooks, i) (rows s),
       edges := filter (\<lambda>e. e \<notin> (\<lambda>n. (notebookNotes, i, id' n)) ` set (filter (in_notebook i) notes))
                  (edges s)\<rparr>"
  by (simp add: apply_tx_def deleteNotebook_tx_def fold_unlink_notes)

lemma apply_tx_deleteTag:
  "apply_tx (deleteTag_tx notes i) s =
     s\<lparr>rows := AList.delete (Tags, i) (rows s),
       edges := filter (\<lambda>e. e \<notin> (\<lambda>n. (noteTags, id' n, i)) ` set (filter (has_tag i) notes))
                  (edges s)\<rparr>"
  by (simp add: apply_tx_def deleteTag_tx_def fold_unlink_tags)

lemma entities_of_deleted:
  "e \<in> set (entities_of s ns) \<Longrightarrow> rows s = AList.delete (ns, i) al \<Longrightarrow> id' e \<noteq> i"
  by (auto simp: entities_of_def AList.delete_eq)

lemma map_of_deleted: "map_of (AList.delete k al) k = None"
  by (simp add: AList.delete_conv')

lemma find_in_set: "List.find P xs = Some x \<Longrightarrow> x \<in> set xs"
  by (auto simp: find_Some_iff)

lemma query_notebook_row:
  "note \<in> set (provider_notes s usr) \<Longrightarrow> notebook note = Some b
     \<Longrightarrow> b \<in> set (entities_of s Notebooks)"
  by (auto simp: provider_notes_def useQuery_notes_def split: option.splits dest: find_in_set)

lemma query_tag_rows:
  "note \<in> set (provider_notes s usr) \<Longrightarrow> tag \<in> set (tags note)
     \<Longrightarrow> tag \<in> set (entities_of s Tags)"
  by (auto simp: provider_notes_def useQuery_notes_def split: option.splits)

section \<open>Deleting a notebook\<close>

text \<open>
  C1, as the code has it. \<^verbatim>\<open>deleteNotebook(id)\<close> issues one \<^verbatim>\<open>db.transact\<close> call. Its
  array holds an unlink chunk for every note of the live query that is in the notebook,
  and nothing else before the delete chunk, which comes last. When the call resolves,
  no such note is linked to the notebook any more, the notebook's record is gone, and
  no note of a later query shows the notebook.
\<close>

theorem deleteNotebook_batched:
  assumes run: "deleteNotebook fault notes i w = (r, w')"
      and ok: "fault w (deleteNotebook_tx notes i) = None"
  shows "r = Inr ()
       \<and> (\<exists>us. calls w' = calls w @ [us @ [Chunk Notebooks i [Delete]]]
               \<and> (\<forall>note \<in> set notes. in_notebook i note \<longrightarrow>
                     Chunk Notebooks i [Unlink [(''notes'', [id' note])]] \<in> set us)
               \<and> (\<forall>c \<in> set us. \<exists>note \<in> set notes. in_notebook i note \<and>
                     c = Chunk Notebooks i [Unlink [(''notes'', [id' note])]]))
       \<and> (\<forall>note \<in> set notes. in_notebook i note \<longrightarrow>
             \<not> linked (db w') notebookNotes i (id' note))
       \<and> map_of (rows (db w')) (Notebooks, i) = None
       \<and> (\<forall>b \<in> set (entities_of (db w') Notebooks). id' b \<noteq> i)
       \<and> (\<forall>note' \<in> set (provider_notes (db w') usr). \<not> in_notebook i note')"
proof -
  let ?us = "map (\<lambda>note. Chunk Notebooks i [Unlink [(''notes'', [id' note])]])
               (filter (in_notebook i) notes)"
  from run ok have r: "r = Inr ()"
    and w': "w' = w\<lparr>db := apply_tx (deleteNotebook_tx notes i) (db w),
                    calls := calls w @ [deleteNotebook_tx notes i]\<rparr>"
    by (auto simp: deleteNotebook_def transact_def)
  have c: "calls w' = calls w @ [?us @ [Chunk Notebooks i [Delete]]]"
    by (simp add: w' deleteNotebook_tx_def)
  have u1: "\<forall>note \<in> set notes. in_notebook i note \<longrightarrow>
              Chunk Notebooks i [Unlink [(''notes'', [id' note])]] \<in> set ?us"
    by auto
  have u2: "\<forall>c \<in> set ?us. \<exists>note \<in> set notes. in_notebook i note \<and>
              c = Chunk Notebooks i [Unlink [(''notes'', [id' note])]]"
    by auto
  have e: "\<forall>note \<in> set notes. in_notebook i note \<longrightarrow>
             \<not> linked (db w') notebookNotes i (id' note)"
    by (auto simp: w' apply_tx_deleteNotebook linked_def)
  have rw: "rows (db w') = AList.delete (Notebooks, i) (rows (db w))"
    by (simp add: w' apply_tx_deleteNotebook)
  have g: "map_of (rows (db w')) (Notebooks, i) = None"
    by (simp add: rw map_of_deleted)
  have b: "\<forall>b \<in> set (entities_of (db w') Notebooks). id' b \<noteq> i"
    using rw by (blast dest: entities_of_deleted)
  have v: "\<forall>note' \<in> set (provider_notes (db w') usr). \<not> in_notebook i note'"
  proof
    fix note' assume n: "note' \<in> set (provider_notes (db w') usr)"
    show "\<not> in_notebook i note'"
    proof (cases "notebook note'")
      case None
      then show ?thesis by (simp add: in_notebook_def)
    next
      case (Some x)
      with n have "x \<in> set (entities_of (db w') Notebooks)"
        by (rule query_notebook_row)
      with b have "id' x \<noteq> i" by blast
      with Some show ?thesis by (simp add: in_notebook_def)
    qed
  qed
  from r c u1 u2 e g b v show ?thesis by blast
qed


theorem deleteNotebook_batched_witness:
  "fst (deleteNotebook no_fault (provider_notes sample_store (Some alice)) ''nb-work''
          sample_world) = Inr ()
   \<and> \<not> linked (db (snd (deleteNotebook no_fault (provider_notes sample_store (Some alice))
                           ''nb-work'' sample_world))) notebookNotes ''nb-work'' ''n-b''
   \<and> linked (db sample_world) notebookNotes ''nb-work'' ''n-b''
   \<and> map_of (rows (db (snd (deleteNotebook no_fault (provider_notes sample_store (Some alice))
                               ''nb-work'' sample_world)))) (Notebooks, ''nb-work'') = None
   \<and> map (\<lambda>note. (id' note, notebook note))
         (provider_notes (db (snd (deleteNotebook no_fault
                                     (provider_notes sample_store (Some alice))
                                     ''nb-work'' sample_world))) (Some alice))
       = [(''n-b'', None), (''n-a'', None)]"
proof -
  let ?notes = "provider_notes sample_store (Some alice)"
  let ?call = "deleteNotebook no_fault ?notes ''nb-work'' sample_world"
  let ?note = "\<lparr>id' = ''n-b'',
                attrs = [(''title'', Str ''B''), (''content'', Str ''in Work''),
                         (''createdAt'', Str ''2025-01-01T09:02:00.000Z''),
                         (''updatedAt'', Str ''2025-01-01T09:02:00.000Z''),
                         (''isFavorite'', Bool True)],
                tags = [\<lparr>id' = ''t-todo'',
                          attrs = [(''name'', Str ''todo''),
                                   (''createdAt'', Str ''2025-01-01T09:01:00.000Z'')]\<rparr>],
                notebook = Some \<lparr>id' = ''nb-work'',
                                  attrs = [(''name'', Str ''Work''), (''description'', Str []),
                                           (''createdAt'', Str ''2025-01-01T09:00:00.000Z'')]\<rparr>\<rparr>"
  have run: "?call = (fst ?call, snd ?call)"
    by simp
  have ok: "no_fault sample_world (deleteNotebook_tx ?notes ''nb-work'') = None"
    by (simp add: no_fault_def)
  have view: "?note \<in> set ?notes"
    by (simp add: provider_notes_def useQuery_notes_def entities_of_def linked_def
        sample_store_def alice_def)
  have inb: "in_notebook ''nb-work'' ?note"
    by (simp add: in_notebook_def)
  have before: "linked (db sample_world) notebookNotes ''nb-work'' ''n-b''"
    by (simp add: linked_def sample_world_def sample_store_def)
  note all = deleteNotebook_batched [OF run ok, of "Some alice"]
  from all have "fst ?call = Inr ()"
    by (rule conjunct1)
  moreover from all view inb
  have "\<not> linked (db (snd ?call)) notebookNotes ''nb-work'' (id' ?note)"
    by blast
  then have "\<not> linked (db (snd ?call)) notebookNotes ''nb-work'' ''n-b''"
    by simp
  moreover from all have "map_of (rows (db (snd ?call))) (Notebooks, ''nb-work'') = None"
    by blast
  moreover have "map (\<lambda>note. (id' note, notebook note))
                   (provider_notes (db (snd ?call)) (Some alice))
                   = [(''n-b'', None), (''n-a'', None)]"
    by (simp add: deleteNotebook_def deleteNotebook_tx_def transact_def no_fault_def
        apply_tx_def edges_of_def resolve_def AList.delete_eq
        provider_notes_def useQuery_notes_def entities_of_def linked_def in_notebook_def
        sample_world_def sample_store_def alice_def)
  ultimately show ?thesis
    using before by blast
qed

text \<open>
  C1, as the specification has it, puts the unlink phase and the delete into separate
  calls. In the sample session the notebook \<open>nb-work\<close> holds the note \<open>n-b\<close>: the
  unlink and the delete go out together in a single call, not as one call after another.
\<close>

theorem deleteNotebook_separate_calls_counterexample:
  "calls (snd (deleteNotebook no_fault (provider_notes sample_store (Some alice)) ''nb-work''
                 sample_world))
     = [[Chunk Notebooks ''nb-work'' [Unlink [(''notes'', [''n-b''])]],
         Chunk Notebooks ''nb-work'' [Delete]]]
   \<and> calls (snd (deleteNotebook no_fault (provider_notes sample_store (Some alice)) ''nb-work''
                   sample_world))
     \<noteq> [[Chunk Notebooks ''nb-work'' [Unlink [(''notes'', [''n-b''])]]],
         [Chunk Notebooks ''nb-work'' [Delete]]]"
  by (simp add: deleteNotebook_def deleteNotebook_tx_def transact_def no_fault_def
      provider_notes_def useQuery_notes_def entities_of_def linked_def in_notebook_def
      sample_world_def sample_store_def alice_def)

section \<open>Deleting a tag\<close>

text \<open>
  C5. \<^verbatim>\<open>deleteTag(id)\<close> submits, in the one transaction it issues, an unlink chunk for
  every note of the live query that carries the tag, and nothing else before the delete
  chunk of the tag, which comes last. When the call resolves, none of these notes is
  linked to the tag, the tag's record is gone, and no note of a later query includes
  the tag.
\<close>

theorem deleteTag_unlinks_before_delete:
  assumes run: "deleteTag fault notes i w = (r, w')"
      and ok: "fault w (deleteTag_tx notes i) = None"
  shows "r = Inr ()
       \<and> (\<exists>us. calls w' = calls w @ [us @ [Chunk Tags i [Delete]]]
               \<and> (\<forall>note \<in> set notes. has_tag i note \<longrightarrow>
                     Chunk Notes (id' note) [Unlink [(''tags'', [i])]] \<in> set us)
               \<and> (\<forall>c \<in> set us. \<exists>note \<in> set notes. has_tag i note \<and>
                     c = Chunk Notes (id' note) [Unlink [(''tags'', [i])]]))
       \<and> (\<forall>note \<in> set notes. has_tag i note \<longrightarrow> \<not> linked (db w') noteTags (id' note) i)
       \<and> map_of (rows (db w')) (Tags, i) = None
       \<and> (\<forall>t \<in> set (entities_of (db w') Tags). id' t \<noteq> i)
       \<and> (\<forall>note' \<in> set (provider_notes (db w') usr). \<not> has_tag i note')"
proof -
  let ?us = "map (\<lambda>note. Chunk Notes (id' note) [Unlink [(''tags'', [i])]])
               (filter (has_tag i) notes)"
  from run ok have r: "r = Inr ()"
    and w': "w' = w\<lparr>db := apply_tx (deleteTag_tx notes i) (db w),
                    calls := calls w @ [deleteTag_tx notes i]\<rparr>"
    by (auto simp: deleteTag_def transact_def)
  have c: "calls w' = calls w @ [?us @ [Chunk Tags i [Delete]]]"
    by (simp add: w' deleteTag_tx_def)
  have u1: "\<forall>note \<in> set notes. has_tag i note \<longrightarrow>
              Chunk Notes (id' note) [Unlink [(''tags'', [i])]] \<in> set ?us"
    by auto
  have u2: "\<forall>c \<in> set ?us. \<exists>note \<in> set notes. has_tag i note \<and>
              c = Chunk Notes (id' note) [Unlink [(''tags'', [i])]]"
    by auto
  have e: "\<forall>note \<in> set notes. has_tag i note \<longrightarrow> \<not> linked (db w') noteTags (id' note) i"
    by (auto simp: w' apply_tx_deleteTag linked_def)
  have rw: "rows (db w') = AList.delete (Tags, i) (rows (db w))"
    by (simp add: w' apply_tx_deleteTag)
  have g: "map_of (rows (db w')) (Tags, i) = None"
    by (simp add: rw map_of_deleted)
  have b: "\<forall>t \<in> set (entities_of (db w') Tags). id' t \<noteq> i"
    using rw by (blast dest: entities_of_deleted)
  have v: "\<forall>note' \<in> set (provider_notes (db w') usr). \<not> has_tag i note'"
  proof
    fix note' assume n: "note' \<in> set (provider_notes (db w') usr)"
    show "\<not> has_tag i note'"
    proof
      assume "has_tag i note'"
      then obtain t where t: "t \<in> set (tags note')" and ti: "id' t = i"
        by (auto simp: has_tag_def list_ex_iff)
      from n t have "t \<in> set (entities_of (db w') Tags)"
        by (rule query_tag_rows)
      with b ti show False by blast
    qed
  qed
  from r c u1 u2 e g b v show ?thesis by blast
qed

theorem deleteTag_unlinks_before_delete_witness:
  "fst (deleteTag no_fault (provider_notes sample_store (Some alice)) ''t-todo'' sample_world)
     = Inr ()
   \<and> linked (db sample_world) noteTags ''n-b'' ''t-todo''
   \<and> \<not> linked (db (snd (deleteTag no_fault (provider_notes sample_store (Some alice))
                           ''t-todo'' sample_world))) noteTags ''n-b'' ''t-todo''
   \<and> map_of (rows (db (snd (deleteTag no_fault (provider_notes sample_store (Some alice))
                               ''t-todo'' sample_world)))) (Tags, ''t-todo'') = None"
proof -
  let ?notes = "provider_notes sample_store (Some alice)"
  let ?call = "deleteTag no_fault ?notes ''t-todo'' sample_world"
  let ?note = "\<lparr>id' = ''n-b'',
                attrs = [(''title'', Str ''B''), (''content'', Str ''in Work''),
                         (''createdAt'', Str ''2025-01-01T09:02:00.000Z''),
                         (''updatedAt'', Str ''2025-01-01T09:02:00.000Z''),
                         (''isFavorite'', Bool True)],
                tags = [\<lparr>id' = ''t-todo'',
                          attrs = [(''name'', Str ''todo''),
                                   (''createdAt'', Str ''2025-01-01T09:01:00.000Z'')]\<rparr>],
                notebook = Some \<lparr>id' = ''nb-work'',
                                  attrs = [(''name'', Str ''Work''), (''description'', Str []),
                                           (''createdAt'', Str ''2025-01-01T09:00:00.000Z'')]\<rparr>\<rparr>"
  have run: "?call = (fst ?call, snd ?call)"
    by simp
  have ok: "no_fault sample_world (deleteTag_tx ?notes ''t-todo'') = None"
    by (simp add: no_fault_def)
  have view: "?note \<in> set ?notes"
    by (simp add: provider_notes_def useQuery_notes_def entities_of_def linked_def
        sample_store_def alice_def)
  have carries: "has_tag ''t-todo'' ?note"
    by (simp add: has_tag_def)
  have before: "linked (db sample_world) noteTags ''n-b'' ''t-todo''"
    by (simp add: linked_def sample_world_def sample_store_def)
  note all = deleteTag_unlinks_before_delete [OF run ok, of "Some alice"]
  from all have "fst ?call = Inr ()"
    by (rule conjunct1)
  moreover from all view carries
  have "\<not> linked (db (snd ?call)) noteTags (id' ?note) ''t-todo''"
    by blast
  then have "\<not> linked (db (snd ?call)) noteTags ''n-b'' ''t-todo''"
    by simp
  moreover from all have "map_of (rows (db (snd ?call))) (Tags, ''t-todo'') = None"
    by blast
  ultimately show ?thesis
    using before by blast
qed

section \<open>Moving a note to a notebook\<close>

text \<open>
  C4. \<^verbatim>\<open>moveNoteToNotebook(noteId, notebookId)\<close>: when the live query has the note
  with a notebook, the unlink from the old notebook is issued first and, once it has
  resolved, the link to the new notebook follows as a call of its own: two calls, not
  one transaction. When that unlink is rejected, it stays the only call, its error
  reaches the caller and the store is as before. When the note has no notebook (or the
  live query does not have the note), the link is the only call and no unlink is issued.
\<close>

theorem moveNoteToNotebook_calls:
  assumes run: "moveNoteToNotebook fault notes noteId notebookId w = (r, w')"
  shows "(\<forall>note old.
            List.find (\<lambda>n. id' n = noteId) notes = Some note \<and> notebook note = Some old
            \<and> fault w [Chunk Notebooks (id' old) [Unlink [(''notes'', [noteId])]]] = None
            \<longrightarrow> calls w' = calls w @
                   [[Chunk Notebooks (id' old) [Unlink [(''notes'', [noteId])]]],
                    [Chunk Notebooks notebookId [Link [(''notes'', [noteId])]]]])
       \<and> (\<forall>note old e.
            List.find (\<lambda>n. id' n = noteId) notes = Some note \<and> notebook note = Some old
            \<and> fault w [Chunk Notebooks (id' old) [Unlink [(''notes'', [noteId])]]] = Some e
            \<longrightarrow> calls w' = calls w @ [[Chunk Notebooks (id' old) [Unlink [(''notes'', [noteId])]]]]
                \<and> r = Inl e \<and> db w' = db w)
       \<and> (List.find (\<lambda>n. id' n = noteId) notes = None
           \<or> (\<exists>note. List.find (\<lambda>n. id' n = noteId) notes = Some note \<and> notebook note = None)
            \<longrightarrow> calls w' = calls w @ [[Chunk Notebooks notebookId [Link [(''notes'', [noteId])]]]])"
  using run
  by (auto simp: moveNoteToNotebook_def transact_def split: option.splits prod.splits sum.splits)

theorem moveNoteToNotebook_calls_witness:
  "calls (snd (moveNoteToNotebook no_fault (provider_notes sample_store (Some alice))
                 ''n-b'' ''nb-home'' sample_world))
     = [[Chunk Notebooks ''nb-work'' [Unlink [(''notes'', [''n-b''])]]],
        [Chunk Notebooks ''nb-home'' [Link [(''notes'', [''n-b''])]]]]
   \<and> calls (snd (moveNoteToNotebook no_fault (provider_notes sample_store (Some alice))
                   ''n-a'' ''nb-home'' sample_world))
     = [[Chunk Notebooks ''nb-home'' [Link [(''notes'', [''n-a''])]]]]"
proof -
  let ?notes = "provider_notes sample_store (Some alice)"
  let ?nb = "\<lparr>id' = ''nb-work'',
              attrs = [(''name'', Str ''Work''), (''description'', Str []),
                       (''createdAt'', Str ''2025-01-01T09:00:00.000Z'')]\<rparr>"
  let ?b = "\<lparr>id' = ''n-b'',
             attrs = [(''title'', Str ''B''), (''content'', Str ''in Work''),
                      (''createdAt'', Str ''2025-01-01T09:02:00.000Z''),
                      (''updatedAt'', Str ''2025-01-01T09:02:00.000Z''),
                      (''isFavorite'', Bool True)],
             tags = [\<lparr>id' = ''t-todo'',
                       attrs = [(''name'', Str ''todo''),
                                (''createdAt'', Str ''2025-01-01T09:01:00.000Z'')]\<rparr>],
             notebook = Some ?nb\<rparr>"
  let ?a = "\<lparr>id' = ''n-a'',
             attrs = [(''title'', Str ''A''), (''content'', Str ''loose''),
                      (''createdAt'', Str ''2025-01-01T09:03:00.000Z''),
                      (''updatedAt'', Str ''2025-01-01T09:03:00.000Z''),
                      (''isFavorite'', Bool False)],
             tags = [], notebook = None\<rparr>"
  let ?moveb = "moveNoteToNotebook no_fault ?notes ''n-b'' ''nb-home'' sample_world"
  let ?movea = "moveNoteToNotebook no_fault ?notes ''n-a'' ''nb-home'' sample_world"
  have view: "?notes = [?b, ?a]"
    by (simp add: provider_notes_def useQuery_notes_def entities_of_def linked_def
        sample_store_def alice_def)
  have findb: "List.find (\<lambda>n. id' n = ''n-b'') ?notes = Some ?b"
    by (simp add: view)
  have finda: "List.find (\<lambda>n. id' n = ''n-a'') ?notes = Some ?a"
    by (simp add: view)
  have ok: "no_fault sample_world [Chunk Notebooks (id' ?nb) [Unlink [(''notes'', [''n-b''])]]] = None"
    by (simp add: no_fault_def)
  have runb: "?moveb = (fst ?moveb, snd ?moveb)" and runa: "?movea = (fst ?movea, snd ?movea)"
    by simp_all
  from moveNoteToNotebook_calls [OF runb] findb ok
  have "calls (snd ?moveb) = calls sample_world @
          [[Chunk Notebooks (id' ?nb) [Unlink [(''notes'', [''n-b''])]]],
           [Chunk Notebooks ''nb-home'' [Link [(''notes'', [''n-b''])]]]]"
    by simp
  moreover from moveNoteToNotebook_calls [OF runa] finda
  have "calls (snd ?movea) = calls sample_world @
          [[Chunk Notebooks ''nb-home'' [Link [(''notes'', [''n-a''])]]]]"
    by simp
  ultimately show ?thesis
    by (simp add: sample_world_def)
qed

section \<open>Removing a tag that is not attached\<close>




section \<open>Updating a note\<close>

text \<open>
  The value of an attribute of a stored record, if the record and the attribute exist.
\<close>

definition row_attr :: "store \<Rightarrow> namespace \<Rightarrow> ident \<Rightarrow> string \<Rightarrow> jsvalue option" where
  "row_attr s ns i k = (case map_of (rows s) (ns, i) of None \<Rightarrow> None | Some a \<Rightarrow> map_of a k)"

lemma map_of_set_fields:
  "map_of (set_fields kvs old) k =
     (case map_of (rev kvs) k of Some v \<Rightarrow> Some v | None \<Rightarrow> map_of old k)"
proof (induction kvs arbitrary: old)
  case Nil
  show ?case by (simp add: set_fields_def)
next
  case (Cons kv kvs)
  have "set_fields (kv # kvs) old = set_fields kvs (AList.update (fst kv) (snd kv) old)"
    by (simp add: set_fields_def)
  then show ?case
    by (cases kv) (auto simp: Cons.IH AList.update_conv' map_add_def split: option.splits)
qed

lemma map_of_rev_distinct:
  assumes "distinct (map fst xs)"
  shows "map_of (rev xs) = map_of xs"
proof -
  from assms have "distinct (map fst (rev xs))"
    by (simp add: rev_map [symmetric])
  with assms show ?thesis
    by (simp add: map_of_inject_set)
qed

lemma filter_update_other:
  "filter (\<lambda>row. fst row \<noteq> k) (AList.update k v al) = filter (\<lambda>row. fst row \<noteq> k) al"
  by (induction al) auto

lemma apply_tx_update:
  "apply_tx [Chunk ns i [Update kvs]] s =
     s\<lparr>rows := AList.update (ns, i)
                 (set_fields kvs (case map_of (rows s) (ns, i) of None \<Rightarrow> [] | Some old \<Rightarrow> old))
                 (rows s)\<rparr>"
  by (simp add: apply_tx_def)

lemma row_attr_update:
  assumes "distinct (map fst kvs)"
  shows "row_attr (apply_tx [Chunk ns i [Update kvs]] s) ns i k =
           (case map_of kvs k of Some v \<Rightarrow> Some v | None \<Rightarrow> row_attr s ns i k)"
  using assms
  by (simp add: apply_tx_update row_attr_def AList.update_conv' map_of_set_fields map_of_rev_distinct
      split: option.splits)

text \<open>
  C7. \<^verbatim>\<open>updateNote(id, updates)\<close> issues one call with one update chunk on the note.
  Whatever the service answers, every attribute of the note that is neither given in
  \<open>updates\<close> nor \<^verbatim>\<open>updatedAt\<close> is as before (\<^verbatim>\<open>createdAt\<close>, and \<^verbatim>\<open>isFavorite\<close> when
  it is not given), no edge has changed (the links to the notebook and the tags among
  them) and every other record is as before. When the call resolves, every field given
  in \<open>updates\<close> has its new value and \<^verbatim>\<open>updatedAt\<close> is the time of the call; when it
  is rejected, the error reaches the caller and the store is as before. \<open>updates\<close> is
  an object: each key occurs once.
\<close>

theorem updateNote_frame:
  assumes run: "updateNote fault now i updates w = (r, w')"
      and obj: "distinct (map fst updates)"
  shows "calls w' = calls w @ [[Chunk Notes i [Update (AList.update ''updatedAt'' (Str now) updates)]]]
       \<and> (\<forall>k. k \<notin> fst ` set updates \<and> k \<noteq> ''updatedAt''
              \<longrightarrow> row_attr (db w') Notes i k = row_attr (db w) Notes i k)
       \<and> edges (db w') = edges (db w)
       \<and> filter (\<lambda>row. fst row \<noteq> (Notes, i)) (rows (db w'))
           = filter (\<lambda>row. fst row \<noteq> (Notes, i)) (rows (db w))
       \<and> (fault w [Chunk Notes i [Update (AList.update ''updatedAt'' (Str now) updates)]] = None
            \<longrightarrow> r = Inr ()
              \<and> (\<forall>k v. (k, v) \<in> set updates \<and> k \<noteq> ''updatedAt''
                     \<longrightarrow> row_attr (db w') Notes i k = Some v)
              \<and> row_attr (db w') Notes i ''updatedAt'' = Some (Str now))
       \<and> (\<forall>e. fault w [Chunk Notes i [Update (AList.update ''updatedAt'' (Str now) updates)]] = Some e
              \<longrightarrow> r = Inl e \<and> db w' = db w)"
proof (cases "fault w [Chunk Notes i [Update (AList.update ''updatedAt'' (Str now) updates)]]")
  case (Some e)
  with run show ?thesis
    by (auto simp: updateNote_def transact_def)
next
  case None
  let ?data = "AList.update ''updatedAt'' (Str now) updates"
  from run None have r: "r = Inr ()"
    and w': "w' = w\<lparr>db := apply_tx [Chunk Notes i [Update ?data]] (db w),
                    calls := calls w @ [[Chunk Notes i [Update ?data]]]\<rparr>"
    by (auto simp: updateNote_def transact_def)
  from obj have d: "distinct (map fst ?data)"
    by (rule AList.distinct_update)
  have at: "row_attr (db w') Notes i k =
              (case map_of ?data k of Some v \<Rightarrow> Some v | None \<Rightarrow> row_attr (db w) Notes i k)" for k
    by (simp add: w' row_attr_update [OF d])
  have m: "map_of ?data = (map_of updates)(''updatedAt'' \<mapsto> Str now)"
    by (rule AList.update_conv')
  have given: "\<forall>k v. (k, v) \<in> set updates \<and> k \<noteq> ''updatedAt'' \<longrightarrow> row_attr (db w') Notes i k = Some v"
    using obj by (auto simp: at m)
  have stamp: "row_attr (db w') Notes i ''updatedAt'' = Some (Str now)"
    by (simp add: at m)
  have rest: "\<forall>k. k \<notin> fst ` set updates \<and> k \<noteq> ''updatedAt''
                \<longrightarrow> row_attr (db w') Notes i k = row_attr (db w) Notes i k"
    by (auto simp: at m map_of_eq_None_iff [THEN iffD2] split: option.splits)
  have ed: "edges (db w') = edges (db w)"
    by (simp add: w' apply_tx_update)
  have others: "filter (\<lambda>row. fst row \<noteq> (Notes, i)) (rows (db w'))
                  = filter (\<lambda>row. fst row \<noteq> (Notes, i)) (rows (db w))"
    by (simp add: w' apply_tx_update filter_update_other)
  have c: "calls w' = calls w @ [[Chunk Notes i [Update ?data]]]"
    by (simp add: w')
  from None r c given stamp rest ed others show ?thesis
    by simp
qed

theorem updateNote_frame_witness:
  "fst (updateNote no_fault ''2025-02-01T08:00:00.000Z'' ''n-a'' [(''title'', Str ''A2'')]
          sample_world) = Inr ()
   \<and> row_attr (db (snd (updateNote no_fault ''2025-02-01T08:00:00.000Z'' ''n-a''
                          [(''title'', Str ''A2'')] sample_world))) Notes ''n-a'' ''title''
       = Some (Str ''A2'')
   \<and> row_attr (db (snd (updateNote no_fault ''2025-02-01T08:00:00.000Z'' ''n-a''
                          [(''title'', Str ''A2'')] sample_world))) Notes ''n-a'' ''updatedAt''
       = Some (Str ''2025-02-01T08:00:00.000Z'')
   \<and> row_attr (db (snd (updateNote no_fault ''2025-02-01T08:00:00.000Z'' ''n-a''
                          [(''title'', Str ''A2'')] sample_world))) Notes ''n-a'' ''createdAt''
       = Some (Str ''2025-01-01T09:03:00.000Z'')
   \<and> row_attr (db (snd (updateNote no_fault ''2025-02-01T08:00:00.000Z'' ''n-a''
                          [(''title'', Str ''A2'')] sample_world))) Notes ''n-a'' ''isFavorite''
       = Some (Bool False)"
proof -
  let ?call = "updateNote no_fault ''2025-02-01T08:00:00.000Z'' ''n-a'' [(''title'', Str ''A2'')]
                 sample_world"
  have run: "?call = (fst ?call, snd ?call)"
    by simp
  have ok: "no_fault sample_world
              [Chunk Notes ''n-a''
                 [Update (AList.update ''updatedAt'' (Str ''2025-02-01T08:00:00.000Z'')
                            [(''title'', Str ''A2'')])]] = None"
    by (simp add: no_fault_def)
  have obj: "distinct (map fst [(''title'', Str ''A2'')])"
    by simp
  have created: "row_attr (db sample_world) Notes ''n-a'' ''createdAt''
                   = Some (Str ''2025-01-01T09:03:00.000Z'')"
    and favorite: "row_attr (db sample_world) Notes ''n-a'' ''isFavorite'' = Some (Bool False)"
    by (simp_all add: row_attr_def sample_world_def sample_store_def)
  note all = updateNote_frame [OF run obj]
  from all ok have "fst ?call = Inr ()"
    by blast
  moreover from all ok have "row_attr (db (snd ?call)) Notes ''n-a'' ''title'' = Some (Str ''A2'')"
    by simp
  moreover from all ok
  have "row_attr (db (snd ?call)) Notes ''n-a'' ''updatedAt'' = Some (Str ''2025-02-01T08:00:00.000Z'')"
    by blast
  moreover from all
  have "row_attr (db (snd ?call)) Notes ''n-a'' ''createdAt''
          = row_attr (db sample_world) Notes ''n-a'' ''createdAt''"
    by simp
  moreover from all
  have "row_attr (db (snd ?call)) Notes ''n-a'' ''isFavorite''
          = row_attr (db sample_world) Notes ''n-a'' ''isFavorite''"
    by simp
  ultimately show ?thesis
    using created favorite by simp
qed

section \<open>The seeder does not throw\<close>

text \<open>
  C10. \<^verbatim>\<open>seedUserWithOnboardingNotes\<close> returns normally on every input. When the user is
  missing or has an empty identifier it issues no call and leaves the store alone. When
  the body of its \<^verbatim>\<open>try\<close> fails, the error is caught and logged on the console, and
  nothing else happens after the failure.
\<close>

theorem seedUserWithOnboardingNotes_never_throws:
  "fst (seedUserWithOnboardingNotes fault gen now usr w) = Inr ()
   \<and> (usr = None \<or> (\<exists>u. usr = Some u \<and> user_id u = [])
        \<longrightarrow> calls (snd (seedUserWithOnboardingNotes fault gen now usr w)) = calls w
            \<and> db (snd (seedUserWithOnboardingNotes fault gen now usr w)) = db w)
   \<and> (\<forall>u e w1. usr = Some u \<and> user_id u \<noteq> [] \<and> seed_body fault gen now u w = (Inl e, w1)
        \<longrightarrow> snd (seedUserWithOnboardingNotes fault gen now usr w)
              = w1\<lparr>console := console w1 @
                     [ConsoleErrorWith ''Failed to create onboarding notes:'' e]\<rparr>)"
  by (auto simp: seedUserWithOnboardingNotes_def split: option.splits prod.splits sum.splits)

theorem seedUserWithOnboardingNotes_never_throws_witness:
  "fst (seedUserWithOnboardingNotes no_fault sample_gen ''2025-01-01T09:00:00.000Z'' None
          empty_world) = Inr ()
   \<and> calls (snd (seedUserWithOnboardingNotes no_fault sample_gen ''2025-01-01T09:00:00.000Z'' None
                   empty_world)) = []
   \<and> fst (seedUserWithOnboardingNotes reject_all sample_gen ''2025-01-01T09:00:00.000Z''
            (Some alice) empty_world) = Inr ()
   \<and> console (snd (seedUserWithOnboardingNotes reject_all sample_gen ''2025-01-01T09:00:00.000Z''
                     (Some alice) empty_world))
       = [ConsoleErrorWith ''Failed to create onboarding notes:'' (Error ''offline'')]"
proof -
  let ?now = "''2025-01-01T09:00:00.000Z''"
  let ?w1 = "empty_world\<lparr>calls := [[notebook_chunk (sample_gen 0) ?now alice]]\<rparr>"
  note none = seedUserWithOnboardingNotes_never_throws [of no_fault sample_gen ?now None empty_world]
  note rejected =
    seedUserWithOnboardingNotes_never_throws [of reject_all sample_gen ?now "Some alice" empty_world]
  have uid: "user_id alice \<noteq> []"
    by (simp add: alice_def)
  have body: "seed_body reject_all sample_gen ?now alice empty_world = (Inl (Error ''offline''), ?w1)"
    by (simp add: seed_body_def transact_def reject_all_def empty_world_def)
  from none have "fst (seedUserWithOnboardingNotes no_fault sample_gen ?now None empty_world) = Inr ()"
    by (rule conjunct1)
  moreover from none
  have "calls (snd (seedUserWithOnboardingNotes no_fault sample_gen ?now None empty_world))
          = calls empty_world"
    by simp
  then have "calls (snd (seedUserWithOnboardingNotes no_fault sample_gen ?now None empty_world)) = []"
    by (simp add: empty_world_def)
  moreover from rejected
  have "fst (seedUserWithOnboardingNotes reject_all sample_gen ?now (Some alice) empty_world) = Inr ()"
    by (rule conjunct1)
  moreover from rejected uid body
  have "snd (seedUserWithOnboardingNotes reject_all sample_gen ?now (Some alice) empty_world)
          = ?w1\<lparr>console := console ?w1 @
                 [ConsoleErrorWith ''Failed to create onboarding notes:'' (Error ''offline'')]\<rparr>"
    by blast
  then have "console (snd (seedUserWithOnboardingNotes reject_all sample_gen ?now (Some alice)
                             empty_world))
               = [ConsoleErrorWith ''Failed to create onboarding notes:'' (Error ''offline'')]"
    by (simp add: empty_world_def)
  ultimately show ?thesis
    by blast
qed

section \<open>Verifying a code\<close>

text \<open>
  C6. \<^verbatim>\<open>verifyCode(email, code)\<close>: when the exchange succeeds, the call returns, the
  recorded email is cleared and the ambient identity is the signed-in user, hence
  present. When the exchange fails, the error of the service is the error the caller
  gets, and the state of the controller, the recorded email with it, is as before.
\<close>

theorem verifyCode_outcomes:
  assumes run: "verifyCode service email code (a, w) = (r, a', w')"
  shows "(\<forall>u. service email code = Inr u
            \<longrightarrow> r = Inr () \<and> sentEmail a' = None \<and> user a' = Some u \<and> user a' \<noteq> None)
       \<and> (\<forall>e. service email code = Inl e
            \<longrightarrow> r = Inl e \<and> sentEmail a' = sentEmail a \<and> a' = a)"
  using run
  by (auto simp: verifyCode_def signInWithMagicCode_def split: sum.splits prod.splits)

theorem verifyCode_outcomes_witness:
  "fst (verifyCode sample_codes ''alice@example.com'' ''123456'' (code_sent, empty_world)) = Inr ()
   \<and> sentEmail (fst (snd (verifyCode sample_codes ''alice@example.com'' ''123456''
                             (code_sent, empty_world)))) = None
   \<and> user (fst (snd (verifyCode sample_codes ''alice@example.com'' ''123456''
                        (code_sent, empty_world)))) = Some alice
   \<and> fst (verifyCode sample_codes ''alice@example.com'' ''000000'' (code_sent, empty_world))
       = Inl (Error ''invalid code'')
   \<and> sentEmail (fst (snd (verifyCode sample_codes ''alice@example.com'' ''000000''
                             (code_sent, empty_world)))) = Some ''alice@example.com''"
proof -
  let ?good = "verifyCode sample_codes ''alice@example.com'' ''123456'' (code_sent, empty_world)"
  let ?bad = "verifyCode sample_codes ''alice@example.com'' ''000000'' (code_sent, empty_world)"
  have rung: "?good = (fst ?good, fst (snd ?good), snd (snd ?good))"
    and runb: "?bad = (fst ?bad, fst (snd ?bad), snd (snd ?bad))"
    by simp_all
  have accepted: "sample_codes ''alice@example.com'' ''123456'' = Inr alice"
    and refused: "sample_codes ''alice@example.com'' ''000000'' = Inl (Error ''invalid code'')"
    by (simp_all add: sample_codes_def)
  have pending: "sentEmail code_sent = Some ''alice@example.com''"
    by (simp add: code_sent_def)
  from verifyCode_outcomes [OF rung] accepted
  have "fst ?good = Inr () \<and> sentEmail (fst (snd ?good)) = None \<and> user (fst (snd ?good)) = Some alice"
    by blast
  moreover from verifyCode_outcomes [OF runb] refused
  have "fst ?bad = Inl (Error ''invalid code'') \<and> sentEmail (fst (snd ?bad)) = sentEmail code_sent"
    by blast
  ultimately show ?thesis
    using pending by simp
qed

section \<open>Redirecting to the login screen\<close>

text \<open>
  C9. In every state in which loading is over, no identity is present and no email is
  recorded, the route after the redirect effect is \<^verbatim>\<open>/login\<close>: the effect pushes it
  unless it is the current route already.
\<close>

theorem redirect_effect_to_login:
  assumes "\<not> isLoading a" and "user a = None" and "sentEmail a = None"
  shows "pathname (redirect_effect a) = ''/login''
       \<and> (pathname a \<noteq> ''/login'' \<longrightarrow> pushed (redirect_effect a) = pushed a @ [''/login''])"
  using assms
  by (simp add: redirect_effect_def router_push_def truthy_def)

theorem redirect_effect_to_login_witness:
  "\<not> isLoading signed_out \<and> user signed_out = None \<and> sentEmail signed_out = None
   \<and> pathname signed_out = ''/''
   \<and> pathname (redirect_effect signed_out) = ''/login''
   \<and> pushed (redirect_effect signed_out) = [''/login'']"
proof -
  have h: "\<not> isLoading signed_out" "user signed_out = None" "sentEmail signed_out = None"
    and p: "pathname signed_out = ''/''" "pushed signed_out = []"
    by (simp_all add: signed_out_def)
  from redirect_effect_to_login [OF h] p h show ?thesis
    by simp
qed

section \<open>Seeding a new user\<close>

text \<open>
  The array of welcome notes has five entries; a user who is newly seen and owns no
  notes reaches the seeder, and with a service that resolves every call the body of
  the seeder runs to its end.
\<close>

lemma length_welcomeNotes: "length welcomeNotes = 5"
  by (simp add: welcomeNotes_def)

lemma first_welcome_title:
  "fst (welcomeNotes ! 0) = [CHR 0xF0, CHR 0x9F, CHR 0x91, CHR 0x8B] @ '' Welcome to Evernote Clone!''"
  by (simp add: welcomeNotes_def)

lemma seed_body_calls:
  assumes "\<forall>w tx. fault w tx = None"
  shows "seed_body fault gen now u w =
           (Inr (),
            w\<lparr>db := apply_tx (map (note_chunk gen (gen 0) now u) (enumerate 0 welcomeNotes))
                      (apply_tx [notebook_chunk (gen 0) now u] (db w)),
              calls := calls w @ [[notebook_chunk (gen 0) now u],
                                  map (note_chunk gen (gen 0) now u) (enumerate 0 welcomeNotes)],
              console := console w @
                [ConsoleLog ''Successfully created onboarding notes for new user'']\<rparr>)"
  using assms by (simp add: seed_body_def transact_def Let_def)

lemma onboarding_effect_new_user:
  assumes loaded: "\<not> isLoading a"
      and usr: "user a = Some u"
      and uid: "user_id u \<noteq> []"
      and new: "previousUserRef a \<noteq> Some (user_id u)"
      and q: "qfault w = None"
      and none: "\<forall>e \<in> set (entities_of (db w) Notes). \<not> linked (db w) noteCreator (id' e) (user_id u)"
      and ok: "\<forall>w tx. fault w tx = None"
  shows "onboarding_effect qfault fault gen now (a, w) =
           (a\<lparr>previousUserRef := Some (user_id u)\<rparr>,
            snd (seed_body fault gen now u
                   (w\<lparr>console := console w @
                        [ConsoleLog ''Creating onboarding notes for new user'']\<rparr>)))"
proof -
  let ?w0 = "w\<lparr>console := console w @ [ConsoleLog ''Creating onboarding notes for new user'']\<rparr>"
  from none have empty: "filter (\<lambda>e. linked (db w) noteCreator (id' e) (user_id u))
                           (entities_of (db w) Notes) = []"
    by (simp add: filter_empty_conv)
  have query: "queryOnce_notes qfault (user_id u) w = Inr []"
    by (simp add: queryOnce_notes_def q empty)
  have seed: "seedUserWithOnboardingNotes fault gen now (Some u) ?w0 =
                (Inr (), snd (seed_body fault gen now u ?w0))"
    using uid by (simp add: seedUserWithOnboardingNotes_def seed_body_calls [OF ok])
  from loaded usr uid new show ?thesis
    by (simp add: onboarding_effect_def checkUserAndCreateNotes_def query seed)
qed

text \<open>
  C2. A user is newly seen when loading is over, the user has an identifier and that
  identifier is not the one remembered; the user owns no notes when the one-shot query
  resolves with none. Then, the service resolving every call, the effect issues two
  calls. The first creates one notebook named "Getting Started" and links it to the
  user. The second holds five chunks, one per welcome note in the order of the array,
  each creating a note with its title and content, linked to the user and to the new
  notebook; \<^verbatim>\<open>isFavorite\<close> is true in the first chunk only, whose title is the
  Welcome title. The identifier is remembered afterwards.
\<close>

theorem onboarding_seeds_new_user:
  assumes run: "onboarding_effect qfault fault gen now (a, w) = (a', w')"
      and loaded: "\<not> isLoading a"
      and usr: "user a = Some u"
      and uid: "user_id u \<noteq> []"
      and new: "previousUserRef a \<noteq> Some (user_id u)"
      and q: "qfault w = None"
      and none: "\<forall>e \<in> set (entities_of (db w) Notes). \<not> linked (db w) noteCreator (id' e) (user_id u)"
      and ok: "\<forall>w tx. fault w tx = None"
  shows "\<exists>notes.
           calls w' = calls w @
             [[Chunk Notebooks (gen 0)
                 [Update [(''name'', Str ''Getting Started''),
                          (''description'', Str ''Introduction to the Evernote Clone''),
                          (''createdAt'', Str now)],
                  Link [(''creator'', [user_id u])]]],
              notes]
         \<and> length notes = 5
         \<and> (\<forall>k<5. notes ! k =
               Chunk Notes (gen (Suc k))
                 [Update [(''title'', Str (fst (welcomeNotes ! k))),
                          (''content'', Str (snd (welcomeNotes ! k))),
                          (''createdAt'', Str now), (''updatedAt'', Str now),
                          (''isFavorite'', Bool (k = 0))],
                  Link [(''creator'', [user_id u]), (''notebook'', [gen 0])]])
         \<and> fst (welcomeNotes ! 0)
             = [CHR 0xF0, CHR 0x9F, CHR 0x91, CHR 0x8B] @ '' Welcome to Evernote Clone!''
         \<and> previousUserRef a' = Some (user_id u)"
proof -
  let ?notes = "map (note_chunk gen (gen 0) now u) (enumerate 0 welcomeNotes)"
  let ?w0 = "w\<lparr>console := console w @ [ConsoleLog ''Creating onboarding notes for new user'']\<rparr>"
  from run onboarding_effect_new_user
    [where qfault = qfault and w = w and fault = fault and gen = gen and now = now,
      OF loaded usr uid new q none ok]
  have ref: "previousUserRef a' = Some (user_id u)"
    and w': "w' = snd (seed_body fault gen now u ?w0)"
    by auto
  have c: "calls w' = calls w @ [[notebook_chunk (gen 0) now u], ?notes]"
    by (simp add: w' seed_body_calls [OF ok])
  have len: "length ?notes = 5"
    by (simp add: length_welcomeNotes)
  have each: "\<forall>k<5. ?notes ! k =
               Chunk Notes (gen (Suc k))
                 [Update [(''title'', Str (fst (welcomeNotes ! k))),
                          (''content'', Str (snd (welcomeNotes ! k))),
                          (''createdAt'', Str now), (''updatedAt'', Str now),
                          (''isFavorite'', Bool (k = 0))],
                  Link [(''creator'', [user_id u]), (''notebook'', [gen 0])]]"
    by (simp add: length_welcomeNotes nth_enumerate_eq note_chunk_def)
  from c len each first_welcome_title ref show ?thesis
    unfolding notebook_chunk_def by blast
qed

lemma welcomeNotes_entries:
  "welcomeNotes = [welcomeNotes ! 0, welcomeNotes ! 1, welcomeNotes ! 2, welcomeNotes ! 3,
                   welcomeNotes ! 4]"
  by (simp add: welcomeNotes_def)

theorem onboarding_seeds_new_user_witness:
  "length (calls (snd (onboarding_effect no_qfault no_fault sample_gen ''2025-01-01T09:00:00.000Z''
                         (signed_in, empty_world)))) = 2
   \<and> length (calls (snd (onboarding_effect no_qfault no_fault sample_gen
                           ''2025-01-01T09:00:00.000Z'' (signed_in, empty_world))) ! 1) = 5
   \<and> previousUserRef (fst (onboarding_effect no_qfault no_fault sample_gen
                              ''2025-01-01T09:00:00.000Z'' (signed_in, empty_world)))
       = Some ''u-alice''
   \<and> map (\<lambda>note. attr note ''isFavorite'')
         (provider_notes (db (snd (onboarding_effect no_qfault no_fault sample_gen
                                     ''2025-01-01T09:00:00.000Z'' (signed_in, empty_world))))
            (Some alice))
       = [Some (Bool True), Some (Bool False), Some (Bool False), Some (Bool False),
          Some (Bool False)]
   \<and> map (\<lambda>note. map_option id' (notebook note))
         (provider_notes (db (snd (onboarding_effect no_qfault no_fault sample_gen
                                     ''2025-01-01T09:00:00.000Z'' (signed_in, empty_world))))
            (Some alice))
       = [Some ''id-'', Some ''id-'', Some ''id-'', Some ''id-'', Some ''id-'']
   \<and> map (\<lambda>b. (id' b, attr b ''name''))
         (entities_of (db (snd (onboarding_effect no_qfault no_fault sample_gen
                                  ''2025-01-01T09:00:00.000Z'' (signed_in, empty_world))))
            Notebooks)
       = [(''id-'', Some (Str ''Getting Started''))]"
proof -
  let ?now = "''2025-01-01T09:00:00.000Z''"
  let ?run = "onboarding_effect no_qfault no_fault sample_gen ?now (signed_in, empty_world)"
  have run: "?run = (fst ?run, snd ?run)"
    by simp
  have loaded: "\<not> isLoading signed_in" and usr: "user signed_in = Some alice"
    and new: "previousUserRef signed_in \<noteq> Some (user_id alice)"
    by (simp_all add: signed_in_def)
  have uid: "user_id alice \<noteq> []" and name: "user_id alice = ''u-alice''"
    by (simp_all add: alice_def)
  have q: "no_qfault empty_world = None"
    by (simp add: no_qfault_def)
  have none: "\<forall>e \<in> set (entities_of (db empty_world) Notes).
                \<not> linked (db empty_world) noteCreator (id' e) (user_id alice)"
    by (simp add: entities_of_def empty_world_def)
  have ok: "\<forall>w tx. no_fault w tx = None"
    by (simp add: no_fault_def)
  from onboarding_seeds_new_user [OF run loaded usr uid new q none ok]
  obtain written where
    c: "calls (snd ?run) = calls empty_world @
          [[Chunk Notebooks (sample_gen 0)
              [Update [(''name'', Str ''Getting Started''),
                       (''description'', Str ''Introduction to the Evernote Clone''),
                       (''createdAt'', Str ?now)],
               Link [(''creator'', [user_id alice])]]],
           written]"
    and len: "length written = 5"
    and ref: "previousUserRef (fst ?run) = Some (user_id alice)"
    by blast
  from c len have trace: "length (calls (snd ?run)) = 2 \<and> length (calls (snd ?run) ! 1) = 5"
    by (simp add: empty_world_def)
  have after: "db (snd ?run) =
                 apply_tx (map (note_chunk sample_gen (sample_gen 0) ?now alice)
                             (enumerate 0 welcomeNotes))
                   (apply_tx [notebook_chunk (sample_gen 0) ?now alice] (db empty_world))"
    by (simp add: onboarding_effect_new_user
          [where qfault = no_qfault and w = empty_world and fault = no_fault,
            OF loaded usr uid new q none ok]
        seed_body_calls [OF ok])
  have store: "db (snd ?run) =
     \<lparr>rows =
        [((Notebooks, ''id-''),
          [(''name'', Str ''Getting Started''),
           (''description'', Str ''Introduction to the Evernote Clone''),
           (''createdAt'', Str ?now)]),
         ((Notes, ''id-i''),
          [(''title'', Str (fst (welcomeNotes ! 0))), (''content'', Str (snd (welcomeNotes ! 0))),
           (''createdAt'', Str ?now), (''updatedAt'', Str ?now), (''isFavorite'', Bool True)]),
         ((Notes, ''id-ii''),
          [(''title'', Str (fst (welcomeNotes ! 1))), (''content'', Str (snd (welcomeNotes ! 1))),
           (''createdAt'', Str ?now), (''updatedAt'', Str ?now), (''isFavorite'', Bool False)]),
         ((Notes, ''id-iii''),
          [(''title'', Str (fst (welcomeNotes ! 2))), (''content'', Str (snd (welcomeNotes ! 2))),
           (''createdAt'', Str ?now), (''updatedAt'', Str ?now), (''isFavorite'', Bool False)]),
         ((Notes, ''id-iiii''),
          [(''title'', Str (fst (welcomeNotes ! 3))), (''content'', Str (snd (welcomeNotes ! 3))),
           (''createdAt'', Str ?now), (''updatedAt'', Str ?now), (''isFavorite'', Bool False)]),
         ((Notes, ''id-iiiii''),
          [(''title'', Str (fst (welcomeNotes ! 4))), (''content'', Str (snd (welcomeNotes ! 4))),
           (''createdAt'', Str ?now), (''updatedAt'', Str ?now), (''isFavorite'', Bool False)])],
      edges =
        [(notebookNotes, ''id-'', ''id-iiiii''), (noteCreator, ''id-iiiii'', ''u-alice''),
         (notebookNotes, ''id-'', ''id-iiii''), (noteCreator, ''id-iiii'', ''u-alice''),
         (notebookNotes, ''id-'', ''id-iii''), (noteCreator, ''id-iii'', ''u-alice''),
         (notebookNotes, ''id-'', ''id-ii''), (noteCreator, ''id-ii'', ''u-alice''),
         (notebookNotes, ''id-'', ''id-i''), (noteCreator, ''id-i'', ''u-alice''),
         (notebookCreator, ''id-'', ''u-alice'')]\<rparr>"
    apply (subst after)
    apply (subst welcomeNotes_entries)
    apply (simp add: apply_tx_def note_chunk_def notebook_chunk_def enumerate_eq_zip
        set_fields_def edges_of_def resolve_def put_edge_def sample_gen_def alice_def
        empty_world_def)
    done
  have view:
    "map (\<lambda>note. attr note ''isFavorite'') (provider_notes (db (snd ?run)) (Some alice))
       = [Some (Bool True), Some (Bool False), Some (Bool False), Some (Bool False),
          Some (Bool False)]
     \<and> map (\<lambda>note. map_option id' (notebook note)) (provider_notes (db (snd ?run)) (Some alice))
       = [Some ''id-'', Some ''id-'', Some ''id-'', Some ''id-'', Some ''id-'']
     \<and> map (\<lambda>b. (id' b, attr b ''name'')) (entities_of (db (snd ?run)) Notebooks)
       = [(''id-'', Some (Str ''Getting Started''))]"
    apply (subst store)+
    apply (simp add: provider_notes_def useQuery_notes_def entities_of_def linked_def attr_def
        alice_def)
    done
  from trace ref name view show ?thesis
    by simp
qed

end
